theory Spec2Isabelle
  imports Complex_Main
begin

section \<open>The lateral corridor of the piecewise-jerk path optimizer\<close>

text \<open>
  A shallow embedding of \<^verbatim>\<open>qp_piecewise_jerk_path_optimizer.cc\<close>: the four range
  helpers of its anonymous namespace, \<^verbatim>\<open>Init\<close>, \<^verbatim>\<open>GetLateralBounds\<close> and
  \<^verbatim>\<open>Process\<close>.

  A \<^verbatim>\<open>double\<close> is modelled as a \<open>real\<close>: the comparisons, \<open>min\<close>, \<open>max\<close>, sums and
  differences of the source are the exact ones, so rounding, infinities and NaN are outside
  the model. A quotient whose divisor is \<open>0.0\<close> is not a finite double; it is the only
  non-finite value the model tracks (\<open>None\<close> in \<open>double_div\<close>).

  An iterator into \<^verbatim>\<open>lateral_bounds\<close> is its index, a \<open>nat\<close>; \<^verbatim>\<open>end()\<close> is the length.
  Where the C++ standard leaves the behaviour of the source undefined the model returns a
  \<open>fault\<close> instead of a value.
\<close>

subsection \<open>Data\<close>

text \<open>The records carry the accessor names of the source. The one-letter accessors of a
  Frenet point (\<^verbatim>\<open>s\<close>, \<^verbatim>\<open>l\<close>, \<^verbatim>\<open>dl\<close>, \<^verbatim>\<open>ddl\<close>) and of a trajectory point
  (\<^verbatim>\<open>v\<close>) get a prefix, as do the two parts of a status and of the path data.\<close>

record SLBoundary =
  start_s :: real
  end_s :: real
  start_l :: real
  end_l :: real

record PathObstacle =
  IsStatic :: bool
  PerceptionSLBoundary :: SLBoundary

record FrenetFramePoint =
  fp_s :: real
  fp_l :: real
  fp_dl :: real
  fp_ddl :: real

text \<open>Of a trajectory point the source reads the speed only; the pose is what
  \<^verbatim>\<open>GetFrenetPoint\<close> projects.\<close>

record TrajectoryPoint =
  tp_x :: real
  tp_y :: real
  tp_v :: real

text \<open>The reference line is an external collaborator. \<^verbatim>\<open>GetLaneWidth\<close> and
  \<^verbatim>\<open>GetRoadWidth\<close> write a left and a right half-width through their pointer
  arguments; the fields give the pair \<open>(left, right)\<close> the variables hold after the call.\<close>

record ReferenceLine =
  GetLaneWidth :: "real \<Rightarrow> real \<times> real"
  GetRoadWidth :: "real \<Rightarrow> real \<times> real"
  GetFrenetPoint :: "TrajectoryPoint \<Rightarrow> FrenetFramePoint"

record QpPiecewiseJerkPathConfig =
  lateral_buffer :: real
  qp_delta_s :: real
  min_look_ahead_time :: real
  min_look_ahead_distance :: real

record ReferenceLineInfo =
  AdcSlBoundary :: SLBoundary
  path_obstacles :: "PathObstacle list"

type_synonym lateral_bounds = "(real \<times> real) list"

text \<open>The lateral QP solver is external: \<^verbatim>\<open>optimize\<close> answers success or failure and
  \<^verbatim>\<open>GetFrenetFramePath\<close> hands out the path the solver holds afterwards. The field
  gives both for the arguments of the call.\<close>

type_synonym lateral_qp_optimizer =
  "real \<times> real \<times> real \<Rightarrow> real \<Rightarrow> lateral_bounds \<Rightarrow> bool \<times> FrenetFramePoint list"

record QpPiecewiseJerkPathOptimizer =
  is_init :: bool
  config :: QpPiecewiseJerkPathConfig
  lateral_qp_optimizer :: "lateral_qp_optimizer option"
  reference_line_info :: ReferenceLineInfo

datatype ErrorCode = OK | PLANNING_ERROR

record Status =
  error_code :: ErrorCode
  error_message :: string

record PathData =
  pd_reference_line :: "ReferenceLine option"
  pd_frenet_path :: "FrenetFramePoint list"

datatype fault =
  UndefinedCast      \<comment> \<open>a floating value converted to an integer type that cannot hold it\<close>
  | InvalidRange     \<comment> \<open>an iterator pair \<open>(begin, end)\<close> with \<open>end\<close> before \<open>begin\<close>\<close>
  | InvalidIterator  \<comment> \<open>an iterator moved before \<^verbatim>\<open>begin()\<close>\<close>
  | NullOptimizer    \<comment> \<open>\<^verbatim>\<open>lateral_qp_optimizer_\<close> used while it is null\<close>

subsection \<open>Floating values and their conversion to integers\<close>

definition double_div :: "real \<Rightarrow> real \<Rightarrow> real option" where
  "double_div a b = (if b = 0 then None else Some (a / b))"

definition truncate_double :: "real \<Rightarrow> int" where
  "truncate_double d = (if 0 \<le> d then \<lfloor>d\<rfloor> else \<lceil>d\<rceil>)"

text \<open>\<^verbatim>\<open>static_cast<int>\<close> and \<^verbatim>\<open>static_cast<size_t>\<close> discard the fractional part;
  the behaviour is undefined when the truncated value does not fit the destination type
  (32-bit \<^verbatim>\<open>int\<close>, 64-bit \<^verbatim>\<open>size_t\<close>).\<close>

definition static_cast_int :: "real option \<Rightarrow> fault + int" where
  "static_cast_int d =
     (case d of
        None \<Rightarrow> Inl UndefinedCast
      | Some r \<Rightarrow>
          (if - (2 ^ 31) \<le> truncate_double r \<and> truncate_double r < 2 ^ 31
           then Inr (truncate_double r) else Inl UndefinedCast))"

definition static_cast_size_t :: "real option \<Rightarrow> fault + nat" where
  "static_cast_size_t d =
     (case d of
        None \<Rightarrow> Inl UndefinedCast
      | Some r \<Rightarrow>
          (if 0 \<le> truncate_double r \<and> truncate_double r < 2 ^ 64
           then Inr (nat (truncate_double r)) else Inl UndefinedCast))"

subsection \<open>The range helpers\<close>

text \<open>\<^verbatim>\<open>std::min_element(begin, end, comp)\<close>: \<^verbatim>\<open>end\<close> for an empty range, else the first
  position no later one is smaller than. \<open>min_element_loop\<close> is the library's loop
  \<^verbatim>\<open>while (++first != last) if (comp(*first, *smallest)) smallest = first;\<close>.\<close>

function min_element_loop ::
  "('a \<Rightarrow> 'a \<Rightarrow> bool) \<Rightarrow> 'a list \<Rightarrow> nat \<Rightarrow> nat \<Rightarrow> nat \<Rightarrow> nat" where
  "min_element_loop cmp xs smallest first_it last_it =
     (if Suc first_it < last_it
      then min_element_loop cmp xs
             (if cmp (xs ! Suc first_it) (xs ! smallest) then Suc first_it else smallest)
             (Suc first_it) last_it
      else smallest)"
  by pat_completeness auto
termination
  by (relation "measure (\<lambda>(cmp, xs, smallest, first_it, last_it). last_it - first_it)") auto

definition min_element :: "('a \<Rightarrow> 'a \<Rightarrow> bool) \<Rightarrow> 'a list \<Rightarrow> nat \<Rightarrow> nat \<Rightarrow> nat" where
  "min_element cmp xs first_it last_it =
     (if first_it = last_it then last_it else min_element_loop cmp xs first_it first_it last_it)"

text \<open>\<^verbatim>\<open>std::max_element\<close> is the same loop with the comparison turned round:
  \<^verbatim>\<open>if (comp(*largest, *first)) largest = first;\<close>.\<close>

function max_element_loop ::
  "('a \<Rightarrow> 'a \<Rightarrow> bool) \<Rightarrow> 'a list \<Rightarrow> nat \<Rightarrow> nat \<Rightarrow> nat \<Rightarrow> nat" where
  "max_element_loop cmp xs largest first_it last_it =
     (if Suc first_it < last_it
      then max_element_loop cmp xs
             (if cmp (xs ! largest) (xs ! Suc first_it) then Suc first_it else largest)
             (Suc first_it) last_it
      else largest)"
  by pat_completeness auto
termination
  by (relation "measure (\<lambda>(cmp, xs, largest, first_it, last_it). last_it - first_it)") auto

definition max_element :: "('a \<Rightarrow> 'a \<Rightarrow> bool) \<Rightarrow> 'a list \<Rightarrow> nat \<Rightarrow> nat \<Rightarrow> nat" where
  "max_element cmp xs first_it last_it =
     (if first_it = last_it then last_it else max_element_loop cmp xs first_it first_it last_it)"

definition min_pair_first :: "lateral_bounds \<Rightarrow> nat \<Rightarrow> nat \<Rightarrow> nat" where
  "min_pair_first lateral_bounds begin_it end_it =
     min_element (\<lambda>lhs rhs. fst lhs < fst rhs) lateral_bounds begin_it end_it"

definition max_pair_second :: "lateral_bounds \<Rightarrow> nat \<Rightarrow> nat \<Rightarrow> nat" where
  "max_pair_second lateral_bounds begin_it end_it =
     max_element (\<lambda>lhs rhs. snd lhs < snd rhs) lateral_bounds begin_it end_it"

function assign_pair_first :: "lateral_bounds \<Rightarrow> nat \<Rightarrow> nat \<Rightarrow> real \<Rightarrow> lateral_bounds" where
  "assign_pair_first lateral_bounds iter end_it first =
     (if iter < end_it
      then assign_pair_first (lateral_bounds[iter := (first, snd (lateral_bounds ! iter))])
             (Suc iter) end_it first
      else lateral_bounds)"
  by pat_completeness auto
termination
  by (relation "measure (\<lambda>(lateral_bounds, iter, end_it, first). end_it - iter)") auto

function assign_pair_second :: "lateral_bounds \<Rightarrow> nat \<Rightarrow> nat \<Rightarrow> real \<Rightarrow> lateral_bounds" where
  "assign_pair_second lateral_bounds iter end_it second =
     (if iter < end_it
      then assign_pair_second (lateral_bounds[iter := (fst (lateral_bounds ! iter), second)])
             (Suc iter) end_it second
      else lateral_bounds)"
  by pat_completeness auto
termination
  by (relation "measure (\<lambda>(lateral_bounds, iter, end_it, second). end_it - iter)") auto

subsection \<open>\<^verbatim>\<open>Init\<close>\<close>

text \<open>The argument is the task's \<^verbatim>\<open>qp_piecewise_jerk_path_config\<close> when the task
  configuration has one; \<open>solver\<close> stands for the \<^verbatim>\<open>ActiverSetLateralQPOptimizer\<close> the
  source allocates.\<close>

definition Init ::
  "QpPiecewiseJerkPathOptimizer \<Rightarrow> QpPiecewiseJerkPathConfig option \<Rightarrow> lateral_qp_optimizer
     \<Rightarrow> QpPiecewiseJerkPathOptimizer \<times> bool" where
  "Init this task_config solver =
     (let this1 = (case task_config of
                     None \<Rightarrow> this
                   | Some c \<Rightarrow> this\<lparr>config := c\<rparr>)
      in (this1\<lparr>lateral_qp_optimizer := Some solver, is_init := True\<rparr>, True))"

subsection \<open>\<^verbatim>\<open>GetLateralBounds\<close>: the base corridor\<close>

text \<open>The body of the first loop at the station \<open>accumulated_s\<close>: the pair written to
  \<^verbatim>\<open>lateral_bounds[i]\<close>.\<close>

definition expand_bound :: "SLBoundary \<Rightarrow> ReferenceLine \<Rightarrow> real \<Rightarrow> real \<times> real" where
  "expand_bound adc_sl reference_line accumulated_s =
     (let (left, right) = GetLaneWidth reference_line accumulated_s;
          adc_off_left = (end_l adc_sl > left);
          adc_off_right = (start_l adc_sl < - right)
      in if adc_off_left \<or> adc_off_right
         then (let (road_left, road_right) = GetRoadWidth reference_line accumulated_s
               in if adc_off_left
                  then (- right, min (end_l adc_sl) road_left)
                  else (max (start_l adc_sl) (- road_right), left))
         else (- right, left))"

text \<open>The first loop, from the index \<open>i\<close> on; it hands back the bounds and the value of
  \<^verbatim>\<open>accumulated_s\<close> it ends with, which the second loop reads.\<close>

function expand_loop ::
  "SLBoundary \<Rightarrow> ReferenceLine \<Rightarrow> real \<Rightarrow> lateral_bounds \<Rightarrow> nat \<Rightarrow> real
     \<Rightarrow> lateral_bounds \<times> real" where
  "expand_loop adc_sl reference_line delta_s lateral_bounds i accumulated_s =
     (if i < length lateral_bounds
      then expand_loop adc_sl reference_line delta_s
             (lateral_bounds[i := expand_bound adc_sl reference_line accumulated_s])
             (Suc i) (accumulated_s + delta_s)
      else (lateral_bounds, accumulated_s))"
  by pat_completeness auto
termination
  by (relation "measure (\<lambda>(adc_sl, reference_line, delta_s, lateral_bounds, i, accumulated_s).
                  length lateral_bounds - i)") auto

subsection \<open>\<^verbatim>\<open>GetLateralBounds\<close>: shrinking by obstacles\<close>

text \<open>The lambda \<^verbatim>\<open>find_s_iter\<close>; \<open>frenet_s\<close> is the local \<^verbatim>\<open>start_s\<close> of the source,
  the station of the Frenet point.\<close>

definition find_s_iter :: "lateral_bounds \<Rightarrow> real \<Rightarrow> real \<Rightarrow> real \<Rightarrow> fault + nat" where
  "find_s_iter lateral_bounds frenet_s delta_s sv =
     (case static_cast_size_t (double_div (sv - frenet_s) delta_s) of
        Inl e \<Rightarrow> Inl e
      | Inr k \<Rightarrow>
          (let iter = min (length lateral_bounds) k
           in if iter = length lateral_bounds
              then (if iter = 0 then Inl InvalidIterator else Inr (iter - 1))
              else Inr iter))"

text \<open>The body of the second loop for one obstacle: the bounds after it. Every
  \<^verbatim>\<open>continue\<close> of the source is a branch that returns the bounds it has.\<close>

definition shrink_by_obstacle ::
  "real \<Rightarrow> SLBoundary \<Rightarrow> real \<Rightarrow> real \<Rightarrow> real \<Rightarrow> ReferenceLine \<Rightarrow> lateral_bounds
     \<Rightarrow> PathObstacle \<Rightarrow> fault + lateral_bounds" where
  "shrink_by_obstacle buffered_adc_width adc_sl frenet_s delta_s accumulated_s reference_line
       lateral_bounds path_obstacle =
     (if \<not> IsStatic path_obstacle then Inr lateral_bounds
      else
        let obstacle_sl = PerceptionSLBoundary path_obstacle in
        if end_s obstacle_sl < frenet_s \<or> start_s obstacle_sl > accumulated_s
        then Inr lateral_bounds
        else
          case find_s_iter lateral_bounds frenet_s delta_s (start_s obstacle_sl) of
            Inl e \<Rightarrow> Inl e
          | Inr start_iter \<Rightarrow>
          (case find_s_iter lateral_bounds frenet_s delta_s (end_s obstacle_sl) of
            Inl e \<Rightarrow> Inl e
          | Inr end_index \<Rightarrow>
          let end_iter = end_index + 1 in
          if end_iter < start_iter then Inl InvalidRange
          else
            let l_lower = fst (lateral_bounds ! max_pair_second lateral_bounds start_iter end_iter);
                l_upper = snd (lateral_bounds ! min_pair_first lateral_bounds start_iter end_iter)
            in
            if start_l obstacle_sl > l_upper \<or> end_l obstacle_sl < l_lower
            then Inr lateral_bounds
            else if end_s obstacle_sl < end_s adc_sl
            then
              (if start_l obstacle_sl > end_l adc_sl
               then Inr (assign_pair_second lateral_bounds start_iter end_iter
                           (start_l obstacle_sl))
               else Inr (assign_pair_first lateral_bounds start_iter end_iter
                           (end_l obstacle_sl)))
            else
              let left_remain = l_upper - end_l obstacle_sl;
                  right_remain = - l_lower + start_l obstacle_sl;
                  (l_lower1, l_upper1) =
                    (if left_remain > buffered_adc_width
                     then (max l_lower (end_l obstacle_sl), l_upper)
                     else if right_remain > buffered_adc_width
                     then (l_lower, min l_upper (start_l obstacle_sl))
                     else if start_l obstacle_sl * end_l obstacle_sl < 0
                     then (l_lower, l_upper)
                     else
                       let (road_left, road_right) =
                             GetRoadWidth reference_line (start_s obstacle_sl)
                       in if start_l obstacle_sl \<ge> 0
                          then (max (start_l obstacle_sl - buffered_adc_width) (- road_right),
                                start_l obstacle_sl)
                          else (end_l obstacle_sl,
                                min (end_l obstacle_sl + buffered_adc_width) road_left))
              in Inr (assign_pair_second
                        (assign_pair_first lateral_bounds start_iter end_iter l_lower1)
                        start_iter end_iter l_upper1)))"

text \<open>The second loop over the items of the path decision.\<close>

fun shrink_loop ::
  "real \<Rightarrow> SLBoundary \<Rightarrow> real \<Rightarrow> real \<Rightarrow> real \<Rightarrow> ReferenceLine \<Rightarrow> lateral_bounds
     \<Rightarrow> PathObstacle list \<Rightarrow> fault + lateral_bounds" where
  "shrink_loop buffered_adc_width adc_sl frenet_s delta_s accumulated_s reference_line
       lateral_bounds [] = Inr lateral_bounds"
| "shrink_loop buffered_adc_width adc_sl frenet_s delta_s accumulated_s reference_line
       lateral_bounds (path_obstacle # rest) =
     (case shrink_by_obstacle buffered_adc_width adc_sl frenet_s delta_s accumulated_s
             reference_line lateral_bounds path_obstacle of
        Inl e \<Rightarrow> Inl e
      | Inr lateral_bounds1 \<Rightarrow>
          shrink_loop buffered_adc_width adc_sl frenet_s delta_s accumulated_s reference_line
            lateral_bounds1 rest)"

text \<open>The number of stations, \<^verbatim>\<open>std::max(2, static_cast<int>(path_length / qp_delta_s))\<close>.\<close>

definition bounds_size :: "real \<Rightarrow> real \<Rightarrow> fault + nat" where
  "bounds_size path_length delta_s =
     (case static_cast_int (double_div path_length delta_s) of
        Inl e \<Rightarrow> Inl e
      | Inr n \<Rightarrow> Inr (nat (max 2 n)))"

text \<open>The base corridor: the vector of \<open>num_stations\<close> (the local \<^verbatim>\<open>size\<close>) value-initialised pairs after the first
  loop, with the final \<^verbatim>\<open>accumulated_s\<close>.\<close>

definition base_bounds ::
  "SLBoundary \<Rightarrow> ReferenceLine \<Rightarrow> real \<Rightarrow> nat \<Rightarrow> real \<Rightarrow> lateral_bounds \<times> real" where
  "base_bounds adc_sl reference_line delta_s num_stations frenet_s =
     expand_loop adc_sl reference_line delta_s (replicate num_stations (0, 0)) 0 frenet_s"

text \<open>\<^verbatim>\<open>GetLateralBounds\<close>. The source never reads its parameter \<^verbatim>\<open>obstacles\<close>: the
  second loop runs over the path obstacles of \<^verbatim>\<open>reference_line_info_\<close>.\<close>

definition GetLateralBounds ::
  "QpPiecewiseJerkPathOptimizer \<Rightarrow> SLBoundary \<Rightarrow> FrenetFramePoint \<Rightarrow> real \<Rightarrow> real
     \<Rightarrow> ReferenceLine \<Rightarrow> PathObstacle list \<Rightarrow> fault + lateral_bounds" where
  "GetLateralBounds this adc_sl frenet_point delta_s path_length reference_line obstacles =
     (case bounds_size path_length delta_s of
        Inl e \<Rightarrow> Inl e
      | Inr num_stations \<Rightarrow>
          (let buffered_adc_width =
                 end_l adc_sl - start_l adc_sl + lateral_buffer (config this);
               frenet_s = fp_s frenet_point;
               (lateral_bounds, accumulated_s) =
                 base_bounds adc_sl reference_line delta_s num_stations frenet_s
           in shrink_loop buffered_adc_width adc_sl frenet_s delta_s accumulated_s
                reference_line lateral_bounds
                (path_obstacles (reference_line_info this))))"

subsection \<open>\<^verbatim>\<open>Process\<close>\<close>

text \<open>\<^verbatim>\<open>Process\<close> answers a status and writes the path through \<^verbatim>\<open>path_data\<close>; the
  model returns the status with the path data after the call. \<^verbatim>\<open>DCHECK(false)\<close> is
  empty in a release build, the one modelled; logging and the timing of the solver do not
  reach the result.\<close>

definition Process ::
  "QpPiecewiseJerkPathOptimizer \<Rightarrow> 'speed \<Rightarrow> ReferenceLine \<Rightarrow> TrajectoryPoint \<Rightarrow> PathData
     \<Rightarrow> fault + (Status \<times> PathData)" where
  "Process this speed_data reference_line init_point path_data =
     (if \<not> is_init this
      then Inr (\<lparr>error_code = PLANNING_ERROR, error_message = ''Not init.''\<rparr>, path_data)
      else
        let frenet_point = GetFrenetPoint reference_line init_point;
            adc_sl = AdcSlBoundary (reference_line_info this);
            delta_s = qp_delta_s (config this);
            path_length = max (min_look_ahead_time (config this) * tp_v init_point)
                              (min_look_ahead_distance (config this))
        in
        case GetLateralBounds this adc_sl frenet_point delta_s path_length reference_line
               (path_obstacles (reference_line_info this)) of
          Inl e \<Rightarrow> Inl e
        | Inr lateral_bounds \<Rightarrow>
        let lateral_state = (fp_l frenet_point, fp_dl frenet_point, fp_ddl frenet_point) in
        (case lateral_qp_optimizer this of
          None \<Rightarrow> Inl NullOptimizer
        | Some solver \<Rightarrow>
        let (success, solver_path) = solver lateral_state delta_s lateral_bounds in
        if \<not> success
        then Inr (\<lparr>error_code = PLANNING_ERROR,
                   error_message = ''lateral qp optimizer failed''\<rparr>, path_data)
        else
          let frenet_path =
                map (\<lambda>point. point\<lparr>fp_s := fp_s frenet_point + fp_s point\<rparr>) solver_path
          in Inr (\<lparr>error_code = OK, error_message = ''''\<rparr>,
                  path_data\<lparr>pd_reference_line := Some reference_line,
                            pd_frenet_path := frenet_path\<rparr>)))"

subsection \<open>Concrete inputs\<close>

text \<open>A planning cycle that starts at station 50 with a station step of 1 and a horizon of
  2, so that the corridor has the stations 50 and 51. The vehicle occupies the lateral
  interval from -1 to 1 and ends at station 50.\<close>

definition wide_road :: ReferenceLine where
  "wide_road =
     \<lparr>GetLaneWidth = (\<lambda>sv. (2, 2)), GetRoadWidth = (\<lambda>sv. (5, 4)),
      GetFrenetPoint = (\<lambda>p. \<lparr>fp_s = 50, fp_l = 0, fp_dl = 0, fp_ddl = 0\<rparr>)\<rparr>"

text \<open>A lane whose half-widths are (3, 2) before station 51 and (2, 1) from there on.\<close>

definition narrowing_lane :: ReferenceLine where
  "narrowing_lane =
     \<lparr>GetLaneWidth = (\<lambda>sv. if sv < 51 then (3, 2) else (2, 1)), GetRoadWidth = (\<lambda>sv. (5, 5)),
      GetFrenetPoint = (\<lambda>p. \<lparr>fp_s = 50, fp_l = 0, fp_dl = 0, fp_ddl = 0\<rparr>)\<rparr>"

definition adc_footprint :: SLBoundary where
  "adc_footprint = \<lparr>start_s = 46, end_s = 50, start_l = - 1, end_l = 1\<rparr>"

definition start_point :: FrenetFramePoint where
  "start_point = \<lparr>fp_s = 50, fp_l = 0, fp_dl = 0, fp_ddl = 0\<rparr>"

definition static_obstacle :: "real \<Rightarrow> real \<Rightarrow> real \<Rightarrow> real \<Rightarrow> PathObstacle" where
  "static_obstacle s0 s1 l0 l1 =
     \<lparr>IsStatic = True,
      PerceptionSLBoundary = \<lparr>start_s = s0, end_s = s1, start_l = l0, end_l = l1\<rparr>\<rparr>"

definition fresh_optimizer :: "PathObstacle list \<Rightarrow> QpPiecewiseJerkPathOptimizer" where
  "fresh_optimizer obstacles =
     \<lparr>is_init = False,
      config = \<lparr>lateral_buffer = 0, qp_delta_s = 0, min_look_ahead_time = 0,
                min_look_ahead_distance = 0\<rparr>,
      lateral_qp_optimizer = None,
      reference_line_info = \<lparr>AdcSlBoundary = adc_footprint, path_obstacles = obstacles\<rparr>\<rparr>"

definition ready_optimizer ::
  "real \<Rightarrow> lateral_qp_optimizer \<Rightarrow> PathObstacle list \<Rightarrow> QpPiecewiseJerkPathOptimizer" where
  "ready_optimizer buffer solver obstacles =
     fst (Init (fresh_optimizer obstacles)
            (Some \<lparr>lateral_buffer = buffer, qp_delta_s = 1, min_look_ahead_time = 0,
                    min_look_ahead_distance = 2\<rparr>)
            solver)"

text \<open>A solver that succeeds with one point per station, stations counted from zero, and
  one that fails.\<close>

definition straight_solver :: lateral_qp_optimizer where
  "straight_solver lateral_state delta_s lateral_bounds =
     (True, map (\<lambda>k. \<lparr>fp_s = real k * delta_s, fp_l = 0, fp_dl = 0, fp_ddl = 0\<rparr>)
              [0..<length lateral_bounds])"

definition failing_solver :: lateral_qp_optimizer where
  "failing_solver lateral_state delta_s lateral_bounds = (False, [])"

definition standstill :: TrajectoryPoint where
  "standstill = \<lparr>tp_x = 0, tp_y = 0, tp_v = 0\<rparr>"

definition empty_path_data :: PathData where
  "empty_path_data = \<lparr>pd_reference_line = None, pd_frenet_path = []\<rparr>"

declare assign_pair_first.simps [simp del] assign_pair_second.simps [simp del]
  min_element_loop.simps [simp del] max_element_loop.simps [simp del]
  expand_loop.simps [simp del]

section \<open>Properties of the loops\<close>

lemma length_assign_pair_first:
  "length (assign_pair_first lb i e v) = length lb"
  by (induction lb i e v rule: assign_pair_first.induct) (subst assign_pair_first.simps, simp)

lemma nth_assign_pair_first:
  "k < length lb \<Longrightarrow>
   assign_pair_first lb i e v ! k = (if i \<le> k \<and> k < e then (v, snd (lb ! k)) else lb ! k)"
proof (induction lb i e v rule: assign_pair_first.induct)
  case (1 lb i e v)
  show ?case
  proof (cases "i < e")
    case True
    then show ?thesis
      using 1 by (subst assign_pair_first.simps) (auto simp: nth_list_update not_less_eq_eq)
  next
    case False
    then show ?thesis by (subst assign_pair_first.simps) auto
  qed
qed

lemma length_assign_pair_second:
  "length (assign_pair_second lb i e v) = length lb"
  by (induction lb i e v rule: assign_pair_second.induct) (subst assign_pair_second.simps, simp)

lemma nth_assign_pair_second:
  "k < length lb \<Longrightarrow>
   assign_pair_second lb i e v ! k = (if i \<le> k \<and> k < e then (fst (lb ! k), v) else lb ! k)"
proof (induction lb i e v rule: assign_pair_second.induct)
  case (1 lb i e v)
  show ?case
  proof (cases "i < e")
    case True
    then show ?thesis
      using 1 by (subst assign_pair_second.simps) (auto simp: nth_list_update not_less_eq_eq)
  next
    case False
    then show ?thesis by (subst assign_pair_second.simps) auto
  qed
qed

text \<open>Both assignments over one range overwrite exactly the stations of the range.\<close>

lemma assign_both:
  "assign_pair_second (assign_pair_first lb b e lo) b e hi =
     map (\<lambda>k. if b \<le> k \<and> k < e then (lo, hi) else lb ! k) [0..<length lb]"
  by (rule nth_equalityI)
     (auto simp: length_assign_pair_first length_assign_pair_second
                 nth_assign_pair_first nth_assign_pair_second)

lemma expand_loop_length:
  "length (fst (expand_loop adc rl d lb i acc)) = length lb"
  by (induction adc rl d lb i acc rule: expand_loop.induct) (subst expand_loop.simps, simp)

lemma expand_loop_accumulated:
  "snd (expand_loop adc rl d lb i acc) = acc + real (length lb - i) * d"
proof (induction adc rl d lb i acc rule: expand_loop.induct)
  case (1 adc rl d lb i acc)
  show ?case
  proof (cases "i < length lb")
    case True
    then show ?thesis
      using 1 by (subst expand_loop.simps) (simp add: Suc_diff_Suc algebra_simps)
  next
    case False
    then show ?thesis by (subst expand_loop.simps) simp
  qed
qed

lemma expand_loop_nth:
  "k < length lb \<Longrightarrow>
   fst (expand_loop adc rl d lb i acc) ! k =
     (if i \<le> k then expand_bound adc rl (acc + real (k - i) * d) else lb ! k)"
proof (induction adc rl d lb i acc rule: expand_loop.induct)
  case (1 adc rl d lb i acc)
  show ?case
  proof (cases "i < length lb")
    case True
    then show ?thesis
      using 1 by (subst expand_loop.simps)
                 (auto simp: nth_list_update Suc_diff_Suc not_less_eq_eq algebra_simps)
  next
    case False
    then show ?thesis using 1 by (subst expand_loop.simps) simp
  qed
qed

text \<open>The base corridor has one interval per station, the interval of station \<open>i\<close> is the
  loop body at \<open>frenet_s + i * delta_s\<close>, and the loop leaves \<^verbatim>\<open>accumulated_s\<close> one step
  beyond the last station.\<close>

lemma base_bounds_length:
  "length (fst (base_bounds adc_sl reference_line delta_s num_stations frenet_s)) = num_stations"
  by (simp add: base_bounds_def expand_loop_length)

lemma base_bounds_accumulated:
  "snd (base_bounds adc_sl reference_line delta_s num_stations frenet_s) =
     frenet_s + real num_stations * delta_s"
  by (simp add: base_bounds_def expand_loop_accumulated)

lemma base_bounds_nth:
  "i < num_stations \<Longrightarrow>
   fst (base_bounds adc_sl reference_line delta_s num_stations frenet_s) ! i =
     expand_bound adc_sl reference_line (frenet_s + real i * delta_s)"
  by (simp add: base_bounds_def expand_loop_nth)

text \<open>\<^verbatim>\<open>find_s_iter\<close> never hands out \<^verbatim>\<open>end()\<close>, and where the offset of the station is
  not below zero it is the truncated quotient, capped at the last index.\<close>

lemma find_s_iter_in_bounds:
  "find_s_iter lb frenet_s delta_s sv = Inr k \<Longrightarrow> k < length lb"
  by (auto simp: find_s_iter_def Let_def split: sum.splits if_splits)

lemma find_s_iter_forward:
  assumes "0 < delta_s" and "frenet_s \<le> sv" and "lb \<noteq> []"
    and "(sv - frenet_s) / delta_s < 2 ^ 64"
  shows "find_s_iter lb frenet_s delta_s sv =
           Inr (min (length lb - 1) (nat \<lfloor>(sv - frenet_s) / delta_s\<rfloor>))"
proof -
  have q: "0 \<le> (sv - frenet_s) / delta_s" using assms by simp
  then have t: "truncate_double ((sv - frenet_s) / delta_s) = \<lfloor>(sv - frenet_s) / delta_s\<rfloor>"
    by (simp add: truncate_double_def)
  have lo: "0 \<le> \<lfloor>(sv - frenet_s) / delta_s\<rfloor>" using q by simp
  have hi: "\<lfloor>(sv - frenet_s) / delta_s\<rfloor> < 2 ^ 64"
    using assms(4) by (simp add: floor_less_iff)
  have c: "static_cast_size_t (double_div (sv - frenet_s) delta_s) =
             Inr (nat \<lfloor>(sv - frenet_s) / delta_s\<rfloor>)"
    using assms(1) t lo hi by (simp add: static_cast_size_t_def double_div_def)
  have "0 < length lb" using assms(3) by simp
  then show ?thesis
    unfolding find_s_iter_def c by (auto simp: Let_def min_def)
qed

lemma find_s_iter_just_behind:
  assumes "0 < delta_s" and "frenet_s - delta_s < sv" and "sv < frenet_s" and "lb \<noteq> []"
  shows "find_s_iter lb frenet_s delta_s sv = Inr 0"
proof -
  have neg: "(sv - frenet_s) / delta_s < 0"
    using assms(1,3) by (simp add: divide_neg_pos)
  have "- delta_s < sv - frenet_s" using assms(2) by simp
  then have "- 1 < (sv - frenet_s) / delta_s"
    using assms(1) by (simp add: pos_less_divide_eq)
  then have "\<lceil>(sv - frenet_s) / delta_s\<rceil> = 0"
    using neg by (simp add: ceiling_eq_iff)
  then have "truncate_double ((sv - frenet_s) / delta_s) = 0"
    using neg by (simp add: truncate_double_def)
  then have c: "static_cast_size_t (double_div (sv - frenet_s) delta_s) = Inr 0"
    using assms(1) by (simp add: static_cast_size_t_def double_div_def)
  have "0 < length lb" using assms(4) by simp
  then show ?thesis
    unfolding find_s_iter_def c by (auto simp: Let_def)
qed

text \<open>Both searches answer a position of the range they are given; the intervals of a range
  that is uniform are all the same, so there the two values the second loop reads are the
  greatest lower and the least upper bound of the range.\<close>

lemma min_element_loop_in_range:
  "smallest \<le> first_it \<Longrightarrow> first_it < last_it \<Longrightarrow>
   smallest \<le> min_element_loop cmp xs smallest first_it last_it
   \<and> min_element_loop cmp xs smallest first_it last_it < last_it"
proof (induction cmp xs smallest first_it last_it rule: min_element_loop.induct)
  case (1 cmp xs smallest first_it last_it)
  show ?case
  proof (cases "Suc first_it < last_it")
    case True
    then show ?thesis
      using 1 by (subst (1 2) min_element_loop.simps) (auto split: if_splits)
  next
    case False
    then show ?thesis
      using 1 by (subst (1 2) min_element_loop.simps) auto
  qed
qed

lemma max_element_loop_in_range:
  "largest \<le> first_it \<Longrightarrow> first_it < last_it \<Longrightarrow>
   largest \<le> max_element_loop cmp xs largest first_it last_it
   \<and> max_element_loop cmp xs largest first_it last_it < last_it"
proof (induction cmp xs largest first_it last_it rule: max_element_loop.induct)
  case (1 cmp xs largest first_it last_it)
  show ?case
  proof (cases "Suc first_it < last_it")
    case True
    then show ?thesis
      using 1 by (subst (1 2) max_element_loop.simps) (auto split: if_splits)
  next
    case False
    then show ?thesis
      using 1 by (subst (1 2) max_element_loop.simps) auto
  qed
qed

lemma min_pair_first_in_range:
  "begin_it < end_it \<Longrightarrow>
   begin_it \<le> min_pair_first lb begin_it end_it \<and> min_pair_first lb begin_it end_it < end_it"
  using min_element_loop_in_range [of begin_it begin_it end_it]
  by (simp add: min_pair_first_def min_element_def)

lemma max_pair_second_in_range:
  "begin_it < end_it \<Longrightarrow>
   begin_it \<le> max_pair_second lb begin_it end_it \<and> max_pair_second lb begin_it end_it < end_it"
  using max_element_loop_in_range [of begin_it begin_it end_it]
  by (simp add: max_pair_second_def max_element_def)

lemma uniform_range_extremes:
  assumes "begin_it < end_it" and "\<forall>k. begin_it \<le> k \<and> k < end_it \<longrightarrow> lb ! k = (lo, hi)"
  shows "fst (lb ! max_pair_second lb begin_it end_it) = lo"
    and "snd (lb ! min_pair_first lb begin_it end_it) = hi"
  using assms min_pair_first_in_range [of begin_it end_it lb]
    max_pair_second_in_range [of begin_it end_it lb]
  by simp_all

text \<open>On a uniform range the obstacle that straddles the reference line and leaves room on
  neither side does leave the bounds as they were.\<close>

lemma straddling_obstacle_uniform_range_unchanged:
  assumes "IsStatic path_obstacle"
    and "obstacle_sl = PerceptionSLBoundary path_obstacle"
    and "frenet_s \<le> end_s obstacle_sl"
    and "start_s obstacle_sl \<le> accumulated_s"
    and "find_s_iter lateral_bounds frenet_s delta_s (start_s obstacle_sl) = Inr start_iter"
    and "find_s_iter lateral_bounds frenet_s delta_s (end_s obstacle_sl) = Inr end_index"
    and "start_iter \<le> end_index"
    and "\<forall>k. start_iter \<le> k \<and> k \<le> end_index \<longrightarrow> lateral_bounds ! k = (l_lower, l_upper)"
    and "end_s adc_sl \<le> end_s obstacle_sl"
    and "l_upper - end_l obstacle_sl \<le> buffered_adc_width"
    and "start_l obstacle_sl - l_lower \<le> buffered_adc_width"
    and "start_l obstacle_sl * end_l obstacle_sl < 0"
  shows "shrink_by_obstacle buffered_adc_width adc_sl frenet_s delta_s accumulated_s
           reference_line lateral_bounds path_obstacle = Inr lateral_bounds"
proof -
  have sl: "PerceptionSLBoundary path_obstacle = obstacle_sl"
    using assms(2) by simp
  have nonempty: "start_iter < Suc end_index"
    using assms(7) by simp
  have uniform: "\<forall>k. start_iter \<le> k \<and> k < Suc end_index \<longrightarrow> lateral_bounds ! k = (l_lower, l_upper)"
    using assms(8) by (simp add: less_Suc_eq_le)
  have lo: "fst (lateral_bounds ! max_pair_second lateral_bounds start_iter (Suc end_index)) =
              l_lower"
    and hi: "snd (lateral_bounds ! min_pair_first lateral_bounds start_iter (Suc end_index)) =
              l_upper"
    using uniform_range_extremes [OF nonempty uniform] by simp_all
  have same: "map (\<lambda>k. if start_iter \<le> k \<and> k < Suc end_index then (l_lower, l_upper)
                        else lateral_bounds ! k) [0..<length lateral_bounds] = lateral_bounds"
    using uniform by (intro nth_equalityI) auto
  have gate: "\<not> end_s obstacle_sl < frenet_s" "\<not> accumulated_s < start_s obstacle_sl"
    using assms(3,4) by simp_all
  have ahead: "\<not> end_s obstacle_sl < end_s adc_sl"
    using assms(9) by simp
  have valid: "\<not> Suc end_index < start_iter"
    using assms(7) by simp
  have no_room: "\<not> buffered_adc_width < l_upper - end_l obstacle_sl"
    "\<not> buffered_adc_width < start_l obstacle_sl - l_lower"
    using assms(10,11) by simp_all
  have right_remain: "- l_lower + start_l obstacle_sl = start_l obstacle_sl - l_lower"
    by simp
  show ?thesis
    unfolding shrink_by_obstacle_def
    by (simp add: Let_def assms(1) sl gate assms(5) assms(6) valid lo hi ahead no_room
                  right_remain assms(12) assign_both same)
qed

section \<open>The base corridor\<close>

text \<open>
  C6. At a station \<open>s_i = frenet_s + i * delta_s\<close> where the vehicle reaches left of the
  lane, that is where its \<open>end_l\<close> is greater than the left lane half-width, the base
  corridor has the upper bound \<open>min (end_l, roadLeft s_i)\<close> and the lower bound
  \<open>- laneRight s_i\<close>.
\<close>

theorem off_left_base_bound:
  assumes "i < num_stations"
    and "end_l adc_sl > fst (GetLaneWidth reference_line (frenet_s + real i * delta_s))"
  shows "fst (base_bounds adc_sl reference_line delta_s num_stations frenet_s) ! i =
           (- snd (GetLaneWidth reference_line (frenet_s + real i * delta_s)),
            min (end_l adc_sl) (fst (GetRoadWidth reference_line (frenet_s + real i * delta_s))))"
  using assms by (auto simp: base_bounds_nth expand_bound_def Let_def split: prod.splits)

text \<open>A vehicle from 1 to 3 on a lane of half-width 2 and a road of left half-width 5:
  the bound at station 51 is \<open>(- 2, 3)\<close>.\<close>

theorem off_left_base_bound_witness:
  "fst (base_bounds \<lparr>start_s = 46, end_s = 50, start_l = 1, end_l = 3\<rparr> wide_road 1 3 50) ! 1 =
     (- 2, 3)"
proof -
  have "(1::nat) < 3" by simp
  moreover have "end_l \<lparr>start_s = 46, end_s = 50, start_l = 1, end_l = 3\<rparr>
                   > fst (GetLaneWidth wide_road (50 + real (1::nat) * 1))"
    by (simp add: wide_road_def)
  ultimately show ?thesis
    using off_left_base_bound
      [where i = 1 and num_stations = 3 and reference_line = wide_road and frenet_s = 50
         and delta_s = 1 and adc_sl = "\<lparr>start_s = 46, end_s = 50, start_l = 1, end_l = 3\<rparr>"]
    by (simp add: wide_road_def)
qed

text \<open>
  C10. At a station where the vehicle does not strictly exceed the lane, that is where
  \<open>end_l \<le> laneLeft s_i\<close> and \<open>start_l \<ge> - laneRight s_i\<close>, equality included, the base
  bound is \<open>(- laneRight s_i, laneLeft s_i)\<close>, and the road half-widths play no part in
  it: whatever \<^verbatim>\<open>GetRoadWidth\<close> would answer, the bound is the same.
\<close>

theorem inside_lane_base_bound:
  assumes "i < num_stations"
    and "end_l adc_sl \<le> fst (GetLaneWidth reference_line (frenet_s + real i * delta_s))"
    and "start_l adc_sl \<ge> - snd (GetLaneWidth reference_line (frenet_s + real i * delta_s))"
  shows "fst (base_bounds adc_sl reference_line delta_s num_stations frenet_s) ! i =
           (- snd (GetLaneWidth reference_line (frenet_s + real i * delta_s)),
            fst (GetLaneWidth reference_line (frenet_s + real i * delta_s)))
         \<and> (\<forall>road_width.
              fst (base_bounds adc_sl (reference_line\<lparr>GetRoadWidth := road_width\<rparr>)
                     delta_s num_stations frenet_s) ! i =
              fst (base_bounds adc_sl reference_line delta_s num_stations frenet_s) ! i)"
  using assms by (auto simp: base_bounds_nth expand_bound_def Let_def split: prod.splits)

text \<open>A vehicle that touches both lane edges, from -2 to 2 on a lane of half-width 2.\<close>

theorem inside_lane_base_bound_witness:
  "fst (base_bounds \<lparr>start_s = 46, end_s = 50, start_l = - 2, end_l = 2\<rparr> wide_road 1 3 50) ! 2 =
     (- 2, 2)
   \<and> (\<forall>road_width.
        fst (base_bounds \<lparr>start_s = 46, end_s = 50, start_l = - 2, end_l = 2\<rparr>
               (wide_road\<lparr>GetRoadWidth := road_width\<rparr>) 1 3 50) ! 2 = (- 2, 2))"
proof -
  have "(2::nat) < 3" by simp
  moreover have "end_l \<lparr>start_s = 46, end_s = 50, start_l = - 2, end_l = 2\<rparr>
                   \<le> fst (GetLaneWidth wide_road (50 + real (2::nat) * 1))"
    by (simp add: wide_road_def)
  moreover have "start_l \<lparr>start_s = 46, end_s = 50, start_l = - 2, end_l = 2\<rparr>
                   \<ge> - snd (GetLaneWidth wide_road (50 + real (2::nat) * 1))"
    by (simp add: wide_road_def)
  ultimately have
    "fst (base_bounds \<lparr>start_s = 46, end_s = 50, start_l = - 2, end_l = 2\<rparr> wide_road 1 3 50) ! 2 =
       (- snd (GetLaneWidth wide_road (50 + real (2::nat) * 1)),
        fst (GetLaneWidth wide_road (50 + real (2::nat) * 1)))
     \<and> (\<forall>road_width.
          fst (base_bounds \<lparr>start_s = 46, end_s = 50, start_l = - 2, end_l = 2\<rparr>
                 (wide_road\<lparr>GetRoadWidth := road_width\<rparr>) 1 3 50) ! 2 =
          fst (base_bounds \<lparr>start_s = 46, end_s = 50, start_l = - 2, end_l = 2\<rparr>
                 wide_road 1 3 50) ! 2)"
    by (rule inside_lane_base_bound)
  moreover have "GetLaneWidth wide_road (50 + real (2::nat) * 1) = (2, 2)"
    by (simp add: wide_road_def)
  ultimately show ?thesis by simp
qed

section \<open>\<^verbatim>\<open>Process\<close>\<close>

text \<open>
  C8. Before \<^verbatim>\<open>Init\<close> has run, \<^verbatim>\<open>Process\<close> answers the planning error "Not init."
  and leaves the path data as it was, for every input.
\<close>

theorem process_not_initialized:
  assumes "\<not> is_init this"
  shows "Process this speed_data reference_line init_point path_data =
           Inr (\<lparr>error_code = PLANNING_ERROR, error_message = ''Not init.''\<rparr>, path_data)"
  using assms by (simp add: Process_def)

theorem process_not_initialized_witness:
  "Process (fresh_optimizer []) () wide_road standstill empty_path_data =
     Inr (\<lparr>error_code = PLANNING_ERROR, error_message = ''Not init.''\<rparr>, empty_path_data)"
proof -
  have "\<not> is_init (fresh_optimizer [])" by (simp add: fresh_optimizer_def)
  then show ?thesis by (rule process_not_initialized)
qed

text \<open>
  C9. When the solver reports failure, \<^verbatim>\<open>Process\<close> answers the planning error
  "lateral qp optimizer failed" and leaves the path data as it was, whatever the corridor
  handed to the solver is; the solver is asked once.
\<close>

theorem process_optimizer_failed:
  assumes "is_init this"
    and "GetLateralBounds this (AdcSlBoundary (reference_line_info this))
           (GetFrenetPoint reference_line init_point) (qp_delta_s (config this))
           (max (min_look_ahead_time (config this) * tp_v init_point)
                (min_look_ahead_distance (config this)))
           reference_line (path_obstacles (reference_line_info this)) = Inr lateral_bounds"
    and "lateral_qp_optimizer this = Some solver"
    and "solver (fp_l (GetFrenetPoint reference_line init_point),
                 fp_dl (GetFrenetPoint reference_line init_point),
                 fp_ddl (GetFrenetPoint reference_line init_point))
           (qp_delta_s (config this)) lateral_bounds = (False, solver_path)"
  shows "Process this speed_data reference_line init_point path_data =
           Inr (\<lparr>error_code = PLANNING_ERROR,
                 error_message = ''lateral qp optimizer failed''\<rparr>, path_data)"
  using assms by (simp add: Process_def Let_def)

theorem process_optimizer_failed_witness:
  "Process (ready_optimizer 0 failing_solver []) () wide_road standstill empty_path_data =
     Inr (\<lparr>error_code = PLANNING_ERROR,
           error_message = ''lateral qp optimizer failed''\<rparr>, empty_path_data)"
proof -
  let ?planner = "ready_optimizer 0 failing_solver []"
  have a: "is_init ?planner"
    by (simp add: ready_optimizer_def Init_def)
  have b: "GetLateralBounds ?planner (AdcSlBoundary (reference_line_info ?planner))
             (GetFrenetPoint wide_road standstill) (qp_delta_s (config ?planner))
             (max (min_look_ahead_time (config ?planner) * tp_v standstill)
                  (min_look_ahead_distance (config ?planner)))
             wide_road (path_obstacles (reference_line_info ?planner)) = Inr [(- 2, 2), (- 2, 2)]"
    by code_simp
  have c: "lateral_qp_optimizer ?planner = Some failing_solver"
    by (simp add: ready_optimizer_def Init_def)
  have d: "failing_solver (fp_l (GetFrenetPoint wide_road standstill),
                           fp_dl (GetFrenetPoint wide_road standstill),
                           fp_ddl (GetFrenetPoint wide_road standstill))
             (qp_delta_s (config ?planner)) [(- 2, 2), (- 2, 2)] = (False, [])"
    by (simp add: failing_solver_def)
  show ?thesis by (rule process_optimizer_failed [OF a b c d])
qed

text \<open>
  C7. When the solver succeeds, \<^verbatim>\<open>Process\<close> answers OK, and the path data holds the
  reference line and the points of the solver in their order, each with the station of the
  start point added to its station and its other fields as they were.
\<close>

theorem process_success:
  assumes "is_init this"
    and "GetLateralBounds this (AdcSlBoundary (reference_line_info this))
           (GetFrenetPoint reference_line init_point) (qp_delta_s (config this))
           (max (min_look_ahead_time (config this) * tp_v init_point)
                (min_look_ahead_distance (config this)))
           reference_line (path_obstacles (reference_line_info this)) = Inr lateral_bounds"
    and "lateral_qp_optimizer this = Some solver"
    and "solver (fp_l (GetFrenetPoint reference_line init_point),
                 fp_dl (GetFrenetPoint reference_line init_point),
                 fp_ddl (GetFrenetPoint reference_line init_point))
           (qp_delta_s (config this)) lateral_bounds = (True, solver_path)"
  shows "Process this speed_data reference_line init_point path_data =
           Inr (\<lparr>error_code = OK, error_message = ''''\<rparr>,
                path_data\<lparr>pd_reference_line := Some reference_line,
                          pd_frenet_path :=
                            map (\<lambda>point. \<lparr>fp_s = fp_s (GetFrenetPoint reference_line init_point)
                                                   + fp_s point,
                                           fp_l = fp_l point, fp_dl = fp_dl point,
                                           fp_ddl = fp_ddl point\<rparr>)
                              solver_path\<rparr>)"
  using assms by (simp add: Process_def Let_def)

text \<open>Solver stations 0 and 1 with the start point at station 50 give the path stations
  50 and 51.\<close>

theorem process_success_witness:
  "Process (ready_optimizer 0 straight_solver []) () wide_road standstill empty_path_data =
     Inr (\<lparr>error_code = OK, error_message = ''''\<rparr>,
          \<lparr>pd_reference_line = Some wide_road,
           pd_frenet_path = [\<lparr>fp_s = 50, fp_l = 0, fp_dl = 0, fp_ddl = 0\<rparr>,
                             \<lparr>fp_s = 51, fp_l = 0, fp_dl = 0, fp_ddl = 0\<rparr>]\<rparr>)"
proof -
  let ?planner = "ready_optimizer 0 straight_solver []"
  have a: "is_init ?planner"
    by (simp add: ready_optimizer_def Init_def)
  have b: "GetLateralBounds ?planner (AdcSlBoundary (reference_line_info ?planner))
             (GetFrenetPoint wide_road standstill) (qp_delta_s (config ?planner))
             (max (min_look_ahead_time (config ?planner) * tp_v standstill)
                  (min_look_ahead_distance (config ?planner)))
             wide_road (path_obstacles (reference_line_info ?planner)) = Inr [(- 2, 2), (- 2, 2)]"
    by code_simp
  have c: "lateral_qp_optimizer ?planner = Some straight_solver"
    by (simp add: ready_optimizer_def Init_def)
  have d: "straight_solver (fp_l (GetFrenetPoint wide_road standstill),
                            fp_dl (GetFrenetPoint wide_road standstill),
                            fp_ddl (GetFrenetPoint wide_road standstill))
             (qp_delta_s (config ?planner)) [(- 2, 2), (- 2, 2)] =
           (True, [\<lparr>fp_s = 0, fp_l = 0, fp_dl = 0, fp_ddl = 0\<rparr>,
                   \<lparr>fp_s = 1, fp_l = 0, fp_dl = 0, fp_ddl = 0\<rparr>])"
    by (simp add: straight_solver_def ready_optimizer_def Init_def upt_rec)
  have e: "fp_s (GetFrenetPoint wide_road standstill) = 50"
    by (simp add: wide_road_def)
  show ?thesis
    using process_success [OF a b c d, of "()" empty_path_data]
    by (simp add: e empty_path_data_def)
qed

section \<open>Shrinking by one obstacle\<close>

text \<open>
  The branches for an obstacle ahead, in terms of the two values \<open>l_lower\<close> and \<open>l_upper\<close>
  that the source reads for the obstacle's station range. The obstacle is static, in
  longitudinal range, not passed over laterally and does not end before the vehicle does. If
  \<open>l_upper - end_l\<close> exceeds the buffered width, every station of the range gets the lower
  bound \<open>end_l\<close> of the obstacle and the upper bound \<open>l_upper\<close>; otherwise, if
  \<open>start_l - l_lower\<close> exceeds the buffered width, every station of the range gets the
  upper bound \<open>start_l\<close> of the obstacle and the lower bound \<open>l_lower\<close>. The stations
  outside the range keep their bounds.
\<close>

lemma ahead_obstacle_pass_side:
  assumes "IsStatic path_obstacle"
    and "obstacle_sl = PerceptionSLBoundary path_obstacle"
    and "frenet_s \<le> end_s obstacle_sl"
    and "start_s obstacle_sl \<le> accumulated_s"
    and "find_s_iter lateral_bounds frenet_s delta_s (start_s obstacle_sl) = Inr start_iter"
    and "find_s_iter lateral_bounds frenet_s delta_s (end_s obstacle_sl) = Inr end_index"
    and "start_iter \<le> end_index + 1"
    and "l_lower = fst (lateral_bounds ! max_pair_second lateral_bounds start_iter (end_index + 1))"
    and "l_upper = snd (lateral_bounds ! min_pair_first lateral_bounds start_iter (end_index + 1))"
    and "start_l obstacle_sl \<le> l_upper"
    and "l_lower \<le> end_l obstacle_sl"
    and "end_s adc_sl \<le> end_s obstacle_sl"
  shows "(l_upper - end_l obstacle_sl > buffered_adc_width \<longrightarrow>
            shrink_by_obstacle buffered_adc_width adc_sl frenet_s delta_s accumulated_s
              reference_line lateral_bounds path_obstacle =
            Inr (map (\<lambda>k. if start_iter \<le> k \<and> k \<le> end_index
                           then (end_l obstacle_sl, l_upper) else lateral_bounds ! k)
                   [0..<length lateral_bounds]))
         \<and> (\<not> l_upper - end_l obstacle_sl > buffered_adc_width
              \<and> start_l obstacle_sl - l_lower > buffered_adc_width \<longrightarrow>
            shrink_by_obstacle buffered_adc_width adc_sl frenet_s delta_s accumulated_s
              reference_line lateral_bounds path_obstacle =
            Inr (map (\<lambda>k. if start_iter \<le> k \<and> k \<le> end_index
                           then (l_lower, start_l obstacle_sl) else lateral_bounds ! k)
                   [0..<length lateral_bounds]))"
proof -
  have sl: "PerceptionSLBoundary path_obstacle = obstacle_sl"
    using assms(2) by simp
  have lo: "fst (lateral_bounds ! max_pair_second lateral_bounds start_iter (Suc end_index)) =
              l_lower"
    using assms(8) by simp
  have hi: "snd (lateral_bounds ! min_pair_first lateral_bounds start_iter (Suc end_index)) =
              l_upper"
    using assms(9) by simp
  have range: "\<And>k. (start_iter \<le> k \<and> k < Suc end_index) = (start_iter \<le> k \<and> k \<le> end_index)"
    by auto
  have raise: "max l_lower (end_l obstacle_sl) = end_l obstacle_sl"
    using assms(11) by simp
  have lower: "min l_upper (start_l obstacle_sl) = start_l obstacle_sl"
    using assms(10) by simp
  have skip: "\<not> l_upper < start_l obstacle_sl" "\<not> end_l obstacle_sl < l_lower"
    using assms(10,11) by simp_all
  have gate: "\<not> end_s obstacle_sl < frenet_s" "\<not> accumulated_s < start_s obstacle_sl"
    using assms(3,4) by simp_all
  have ahead: "\<not> end_s obstacle_sl < end_s adc_sl"
    using assms(12) by simp
  have valid: "\<not> Suc end_index < start_iter"
    using assms(7) by simp
  have right_remain: "- l_lower + start_l obstacle_sl = start_l obstacle_sl - l_lower"
    by simp
  show ?thesis
  proof (intro conjI impI)
    assume "l_upper - end_l obstacle_sl > buffered_adc_width"
    then show "shrink_by_obstacle buffered_adc_width adc_sl frenet_s delta_s accumulated_s
                 reference_line lateral_bounds path_obstacle =
               Inr (map (\<lambda>k. if start_iter \<le> k \<and> k \<le> end_index
                              then (end_l obstacle_sl, l_upper) else lateral_bounds ! k)
                      [0..<length lateral_bounds])"
      unfolding shrink_by_obstacle_def
      by (simp add: Let_def assms(1) sl gate assms(5) assms(6) valid lo hi skip ahead
                    raise assign_both range)
  next
    assume "\<not> l_upper - end_l obstacle_sl > buffered_adc_width
            \<and> start_l obstacle_sl - l_lower > buffered_adc_width"
    then show "shrink_by_obstacle buffered_adc_width adc_sl frenet_s delta_s accumulated_s
                 reference_line lateral_bounds path_obstacle =
               Inr (map (\<lambda>k. if start_iter \<le> k \<and> k \<le> end_index
                              then (l_lower, start_l obstacle_sl) else lateral_bounds ! k)
                      [0..<length lateral_bounds])"
      unfolding shrink_by_obstacle_def
      by (simp add: Let_def assms(1) sl gate assms(5) assms(6) valid lo hi skip ahead
                    lower assign_both range right_remain)
  qed
qed

text \<open>The corridor \<open>(- 3, 3)\<close> at four stations from station 50, the buffered width 1.8 and
  an obstacle over the stations 51 and 52. With the lateral extent from 0.5 to 1.5 the left
  remainder is 1.5 and the right one 3.5: the upper bound becomes 0.5. With the extent from
  -1.5 to -0.5 the left remainder is 3.5: the lower bound becomes -0.5.\<close>

lemma ahead_obstacle_uniform_example:
  "shrink_by_obstacle (9 / 5) adc_footprint 50 1 54 wide_road (replicate 4 (- 3, 3))
     (static_obstacle (256 / 5) (527 / 10) (1 / 2) (3 / 2)) =
     Inr [(- 3, 3), (- 3, 1 / 2), (- 3, 1 / 2), (- 3, 3)]
   \<and> shrink_by_obstacle (9 / 5) adc_footprint 50 1 54 wide_road (replicate 4 (- 3, 3))
     (static_obstacle (256 / 5) (527 / 10) (- 3 / 2) (- 1 / 2)) =
     Inr [(- 3, 3), (- 1 / 2, 3), (- 1 / 2, 3), (- 3, 3)]"
proof -
  let ?lb = "replicate 4 (- 3, 3) :: lateral_bounds"
  let ?right = "static_obstacle (256 / 5) (527 / 10) (1 / 2) (3 / 2)"
  let ?left = "static_obstacle (256 / 5) (527 / 10) (- 3 / 2) (- 1 / 2)"
  have lo: "- 3 = fst (?lb ! max_pair_second ?lb 1 (2 + 1))" by code_simp
  have hi: "3 = snd (?lb ! min_pair_first ?lb 1 (2 + 1))" by code_simp
  have valid: "(1::nat) \<le> 2 + 1" by simp
  have ahead: "end_s adc_footprint \<le> 527 / 10" by (simp add: adc_footprint_def)
  have list: "\<And>f. map f [0..<length ?lb] = [f 0, f 1, f 2, f 3]"
    by (simp add: upt_rec numeral_eq_Suc)
  have r_static: "IsStatic ?right" by (simp add: static_obstacle_def)
  have r_sl: "\<lparr>start_s = 256 / 5, end_s = 527 / 10, start_l = 1 / 2, end_l = 3 / 2\<rparr> =
                PerceptionSLBoundary ?right"
    by (simp add: static_obstacle_def)
  have r: "shrink_by_obstacle (9 / 5) adc_footprint 50 1 54 wide_road ?lb ?right =
             Inr [(- 3, 3), (- 3, 1 / 2), (- 3, 1 / 2), (- 3, 3)]"
    using ahead_obstacle_pass_side
      [where path_obstacle = ?right and lateral_bounds = ?lb and frenet_s = 50 and delta_s = 1
         and accumulated_s = 54 and start_iter = 1 and end_index = 2 and l_lower = "- 3"
         and l_upper = 3 and adc_sl = adc_footprint and buffered_adc_width = "9 / 5"
         and reference_line = wide_road, OF r_static r_sl _ _ _ _ valid lo hi]
      ahead
    unfolding list
    by (simp add: find_s_iter_def static_cast_size_t_def double_div_def truncate_double_def)
  have l_static: "IsStatic ?left" by (simp add: static_obstacle_def)
  have l_sl: "\<lparr>start_s = 256 / 5, end_s = 527 / 10, start_l = - 3 / 2, end_l = - 1 / 2\<rparr> =
                PerceptionSLBoundary ?left"
    by (simp add: static_obstacle_def)
  have l: "shrink_by_obstacle (9 / 5) adc_footprint 50 1 54 wide_road ?lb ?left =
             Inr [(- 3, 3), (- 1 / 2, 3), (- 1 / 2, 3), (- 3, 3)]"
    using ahead_obstacle_pass_side
      [where path_obstacle = ?left and lateral_bounds = ?lb and frenet_s = 50 and delta_s = 1
         and accumulated_s = 54 and start_iter = 1 and end_index = 2 and l_lower = "- 3"
         and l_upper = 3 and adc_sl = adc_footprint and buffered_adc_width = "9 / 5"
         and reference_line = wide_road, OF l_static l_sl _ _ _ _ valid lo hi]
      ahead
    unfolding list
    by (simp add: find_s_iter_def static_cast_size_t_def double_div_def truncate_double_def)
  from r l show ?thesis by simp
qed

text \<open>Where every station of the range has the same interval, the two values are its
  lower and its upper bound, which are then the greatest lower and the least upper bound of
  the range.\<close>

lemma ahead_obstacle_uniform_range:
  assumes "IsStatic path_obstacle"
    and "obstacle_sl = PerceptionSLBoundary path_obstacle"
    and "frenet_s \<le> end_s obstacle_sl"
    and "start_s obstacle_sl \<le> accumulated_s"
    and "find_s_iter lateral_bounds frenet_s delta_s (start_s obstacle_sl) = Inr start_iter"
    and "find_s_iter lateral_bounds frenet_s delta_s (end_s obstacle_sl) = Inr end_index"
    and "start_iter \<le> end_index"
    and "\<forall>k. start_iter \<le> k \<and> k \<le> end_index \<longrightarrow> lateral_bounds ! k = (l_lower, l_upper)"
    and "start_l obstacle_sl \<le> l_upper"
    and "l_lower \<le> end_l obstacle_sl"
    and "end_s adc_sl \<le> end_s obstacle_sl"
  shows "(l_upper - end_l obstacle_sl > buffered_adc_width \<longrightarrow>
            shrink_by_obstacle buffered_adc_width adc_sl frenet_s delta_s accumulated_s
              reference_line lateral_bounds path_obstacle =
            Inr (map (\<lambda>k. if start_iter \<le> k \<and> k \<le> end_index
                           then (end_l obstacle_sl, l_upper) else lateral_bounds ! k)
                   [0..<length lateral_bounds]))
         \<and> (\<not> l_upper - end_l obstacle_sl > buffered_adc_width
              \<and> start_l obstacle_sl - l_lower > buffered_adc_width \<longrightarrow>
            shrink_by_obstacle buffered_adc_width adc_sl frenet_s delta_s accumulated_s
              reference_line lateral_bounds path_obstacle =
            Inr (map (\<lambda>k. if start_iter \<le> k \<and> k \<le> end_index
                           then (l_lower, start_l obstacle_sl) else lateral_bounds ! k)
                   [0..<length lateral_bounds]))"
proof -
  have nonempty: "start_iter < end_index + 1"
    using assms(7) by simp
  have uniform: "\<forall>k. start_iter \<le> k \<and> k < end_index + 1 \<longrightarrow> lateral_bounds ! k = (l_lower, l_upper)"
    using assms(8) by simp
  have lo: "l_lower = fst (lateral_bounds ! max_pair_second lateral_bounds start_iter (end_index + 1))"
    and hi: "l_upper = snd (lateral_bounds ! min_pair_first lateral_bounds start_iter (end_index + 1))"
    using uniform_range_extremes [OF nonempty uniform] by simp_all
  have valid: "start_iter \<le> end_index + 1"
    using assms(7) by simp
  show ?thesis
    by (rule ahead_obstacle_pass_side
          [OF assms(1) assms(2) assms(3) assms(4) assms(5) assms(6) valid lo hi
              assms(9) assms(10) assms(11)])
qed

text \<open>
  C5 (as the source has it). The second loop passes over an obstacle that is not static,
  that ends before the station of the start point, or that starts beyond
  \<open>frenet_s + num_stations * delta_s\<close>, the value the first loop leaves in
  \<^verbatim>\<open>accumulated_s\<close>, one step beyond the last station: such an obstacle leaves every
  interval of the corridor as it was.
\<close>

theorem obstacle_out_of_range_unchanged:
  assumes "\<not> IsStatic path_obstacle
           \<or> end_s (PerceptionSLBoundary path_obstacle) < frenet_s
           \<or> start_s (PerceptionSLBoundary path_obstacle) > frenet_s + real num_stations * delta_s"
  shows "shrink_by_obstacle buffered_adc_width adc_sl frenet_s delta_s
           (snd (base_bounds adc_sl reference_line delta_s num_stations frenet_s))
           reference_line lateral_bounds path_obstacle = Inr lateral_bounds"
  using assms by (auto simp: shrink_by_obstacle_def base_bounds_accumulated Let_def)

text \<open>Two stations from station 50: an obstacle on the corridor that is not static, a static
  one from station 40 to 49, and a static one from station 52.5 to 53.\<close>

theorem obstacle_out_of_range_unchanged_witness:
  "shrink_by_obstacle 2 adc_footprint 50 1 (snd (base_bounds adc_footprint wide_road 1 2 50))
     wide_road [(- 2, 2), (- 2, 2)]
     ((static_obstacle (101 / 2) 51 (1 / 2) (3 / 2))\<lparr>IsStatic := False\<rparr>) =
     Inr [(- 2, 2), (- 2, 2)]
   \<and> shrink_by_obstacle 2 adc_footprint 50 1 (snd (base_bounds adc_footprint wide_road 1 2 50))
       wide_road [(- 2, 2), (- 2, 2)] (static_obstacle 40 49 (1 / 2) (3 / 2)) =
     Inr [(- 2, 2), (- 2, 2)]
   \<and> shrink_by_obstacle 2 adc_footprint 50 1 (snd (base_bounds adc_footprint wide_road 1 2 50))
       wide_road [(- 2, 2), (- 2, 2)] (static_obstacle (105 / 2) 53 (1 / 2) (3 / 2)) =
     Inr [(- 2, 2), (- 2, 2)]"
proof -
  have a: "\<not> IsStatic ((static_obstacle (101 / 2) 51 (1 / 2) (3 / 2))\<lparr>IsStatic := False\<rparr>)"
    by simp
  have b: "end_s (PerceptionSLBoundary (static_obstacle 40 49 (1 / 2) (3 / 2))) < 50"
    by (simp add: static_obstacle_def)
  have c: "start_s (PerceptionSLBoundary (static_obstacle (105 / 2) 53 (1 / 2) (3 / 2)))
             > 50 + real (2::nat) * 1"
    by (simp add: static_obstacle_def)
  show ?thesis
    using obstacle_out_of_range_unchanged [OF disjI1, OF a]
      obstacle_out_of_range_unchanged [OF disjI2, OF disjI1, OF b]
      obstacle_out_of_range_unchanged [OF disjI2, OF disjI2, OF c]
    by simp
qed

text \<open>C5 as the specification words it takes the last station, 51 here, as the end of the
  longitudinal range. A static obstacle from station 51.5 to 51.8 lies beyond it and
  still lowers the upper bound of the last station to 0.5.\<close>

theorem beyond_last_station_counterexample:
  "start_s (PerceptionSLBoundary (static_obstacle (103 / 2) (259 / 5) (1 / 2) (3 / 2)))
     > fp_s start_point + (2 - 1) * 1
   \<and> GetLateralBounds (ready_optimizer 0 straight_solver []) adc_footprint start_point 1 2
       wide_road [] = Inr [(- 2, 2), (- 2, 2)]
   \<and> GetLateralBounds
       (ready_optimizer 0 straight_solver [static_obstacle (103 / 2) (259 / 5) (1 / 2) (3 / 2)])
       adc_footprint start_point 1 2 wide_road
       [static_obstacle (103 / 2) (259 / 5) (1 / 2) (3 / 2)] = Inr [(- 2, 2), (- 2, 1 / 2)]"
  by code_simp

section \<open>Inputs on which the source departs from its specification\<close>

text \<open>
  C1. On the narrowing lane the base corridor is \<open>(- 2, 3)\<close> at station 50 and \<open>(- 1, 2)\<close>
  at station 51. Over both stations the greatest lower bound is -1 and the least upper bound
  is 2, but the source reads the lower bound of the interval with the greatest upper bound,
  -2, and the upper bound of the interval with the least lower bound, 3. An obstacle from
  2.5 to 2.8, outside \<open>[- 1, 2]\<close>, is therefore not passed over, and station 51 ends with
  \<open>(- 2, 2.5)\<close>, wider than its lane.
\<close>

theorem corridor_extremes_failing_input:
  "fst (base_bounds adc_footprint narrowing_lane 1 2 50) = [(- 2, 3), (- 1, 2)]
   \<and> Max (set (map fst ([(- 2, 3), (- 1, 2)] :: lateral_bounds))) = - 1
   \<and> Min (set (map snd ([(- 2, 3), (- 1, 2)] :: lateral_bounds))) = 2
   \<and> fst (([(- 2, 3), (- 1, 2)] :: lateral_bounds) ! max_pair_second [(- 2, 3), (- 1, 2)] 0 2)
       = - 2
   \<and> snd (([(- 2, 3), (- 1, 2)] :: lateral_bounds) ! min_pair_first [(- 2, 3), (- 1, 2)] 0 2)
       = 3
   \<and> GetLateralBounds
       (ready_optimizer 0 straight_solver [static_obstacle (101 / 2) (103 / 2) (5 / 2) (14 / 5)])
       adc_footprint start_point 1 2 narrowing_lane
       [static_obstacle (101 / 2) (103 / 2) (5 / 2) (14 / 5)] = Inr [(- 2, 5 / 2), (- 2, 5 / 2)]"
  by code_simp

text \<open>
  C2. On the same lane, with the buffered width 2.5, an obstacle from -0.5 to 0.5 over both
  stations straddles the reference line and leaves room on neither side. The source still
  runs both assignments after the empty branch: station 51 goes from \<open>(- 1, 2)\<close> to
  \<open>(- 2, 3)\<close>.
\<close>

theorem straddling_obstacle_failing_input:
  "GetLateralBounds (ready_optimizer (1 / 2) straight_solver []) adc_footprint start_point 1 2
     narrowing_lane [] = Inr [(- 2, 3), (- 1, 2)]
   \<and> GetLateralBounds
       (ready_optimizer (1 / 2) straight_solver
          [static_obstacle (101 / 2) (103 / 2) (- 1 / 2) (1 / 2)])
       adc_footprint start_point 1 2 narrowing_lane
       [static_obstacle (101 / 2) (103 / 2) (- 1 / 2) (1 / 2)] = Inr [(- 2, 3), (- 2, 3)]"
  by code_simp

text \<open>
  C3. An obstacle from station 45 to 50.5 starts five steps before the start point and is
  in longitudinal range. The quotient for its \<open>start_s\<close> is -5, which \<^verbatim>\<open>size_t\<close> cannot
  hold: the conversion has no defined result, so no index 0 is obtained.
\<close>

theorem start_before_start_point_failing_input:
  "double_div (45 - fp_s start_point) 1 = Some (- 5)
   \<and> find_s_iter [(- 2, 2), (- 2, 2)] (fp_s start_point) 1 45 = Inl UndefinedCast
   \<and> GetLateralBounds
       (ready_optimizer 0 straight_solver [static_obstacle 45 (101 / 2) (3 / 2) 3])
       adc_footprint start_point 1 2 wide_road
       [static_obstacle 45 (101 / 2) (3 / 2) 3] = Inl UndefinedCast"
  by code_simp

text \<open>
  C4. On the narrowing lane, with the buffered width 2, an obstacle ahead from -0.5 to -0.2
  covers both stations. The least upper bound of the range is 2, and \<open>2 - (- 0.2)\<close> exceeds
  the buffered width: the lower bound is to become -0.2 and the upper bound to stay 2. The
  source takes the same branch but keeps 3, the upper bound it read at station 50, so
  station 51 goes from \<open>(- 1, 2)\<close> to \<open>(- 0.2, 3)\<close>.
\<close>

theorem pass_left_failing_input:
  "GetLateralBounds (ready_optimizer 0 straight_solver []) adc_footprint start_point 1 2
     narrowing_lane [] = Inr [(- 2, 3), (- 1, 2)]
   \<and> Max (set (map fst ([(- 2, 3), (- 1, 2)] :: lateral_bounds))) = - 1
   \<and> Min (set (map snd ([(- 2, 3), (- 1, 2)] :: lateral_bounds))) = 2
   \<and> end_l adc_footprint - start_l adc_footprint
       + lateral_buffer (config (ready_optimizer 0 straight_solver [])) = 2
   \<and> GetLateralBounds
       (ready_optimizer 0 straight_solver
          [static_obstacle (101 / 2) (103 / 2) (- 1 / 2) (- 1 / 5)])
       adc_footprint start_point 1 2 narrowing_lane
       [static_obstacle (101 / 2) (103 / 2) (- 1 / 2) (- 1 / 5)] =
     Inr [(- 1 / 5, 3), (- 1 / 5, 3)]"
  by code_simp

end
